theory Spec2Isabelle
  imports Complex_Main "HOL-Library.Char_ord" "HOL-Library.List_Lexorder"
    "HOL-Library.Product_Lexorder"
begin

section \<open>Data model (src/types/index.ts, src/errors/index.ts)\<close>

text \<open>
  JavaScript numbers that the program builds itself (readings of \<open>Date.now()\<close>, the
  counter \<open>attemptsMade\<close>) are \<open>int\<close>. Numbers that the caller supplies (job options,
  worker options), the backoff delay and the scores of the delayed sorted set are
  \<open>rat\<close>; the arithmetic is exact (no rounding, no overflow to Infinity).
\<close>

text \<open>
  An optional property of an options object: the key is absent, or it is present with
  the value \<open>undefined\<close>, or it is present with a value. Reading the property gives
  \<open>undefined\<close> (\<open>None\<close>) in the first two cases; an object spread and \<open>JSON.stringify\<close>
  tell them apart.
\<close>

datatype 'a optional = Absent | Undefined | Value 'a

definition get_prop :: "'a optional \<Rightarrow> 'a option" where
  "get_prop p = (case p of Absent \<Rightarrow> None | Undefined \<Rightarrow> None | Value v \<Rightarrow> Some v)"

type_synonym json = string

text \<open>\<open>removeOnComplete\<close> and \<open>removeOnFail\<close> have type \<open>boolean | number\<close>.\<close>

datatype flag = FlagBool bool | FlagNum rat

text \<open>The \<open>backoff\<close> object of \<open>JobOptions\<close>: its \<open>type\<close> string and its \<open>delay\<close>.\<close>

record Backoff =
  btype :: string
  bdelay :: rat

record JobOptions =
  attempts :: "rat optional"
  backoff :: "Backoff optional"
  delay :: "rat optional"
  priority :: "rat optional"
  timeout :: "rat optional"
  removeOnComplete :: "flag optional"
  removeOnFail :: "flag optional"

datatype JobStatus = Waiting | Active | Completed | Failed | Delayed

text \<open>
  The job object as \<open>Queue.add\<close> builds it and as the worker extends it. The field
  \<open>id\<close> is named \<open>job_id\<close> here.
\<close>

record 't Job =
  job_id :: string
  name :: string
  data :: 't
  options :: JobOptions
  createdAt :: int
  status :: JobStatus
  attemptsMade :: int
  returnValue :: "json option"
  failedReason :: "string option"
  stackTrace :: "string list option"

datatype error = QueueError string | JobError string | WorkerError string

text \<open>A thrown JavaScript \<open>Error\<close>: its message and its optional stack.\<close>

record JsError =
  message :: string
  stack :: "string option"

subsection \<open>Truthiness and defaults\<close>

text \<open>\<open>x || d\<close> on an optional number: \<open>undefined\<close> and \<open>0\<close> are falsy.\<close>

definition num_or :: "'a::zero option \<Rightarrow> 'a \<Rightarrow> 'a" where
  "num_or x d = (case x of None \<Rightarrow> d | Some v \<Rightarrow> if v = 0 then d else v)"

definition truthy_num :: "'a::zero option \<Rightarrow> bool" where
  "truthy_num x = (case x of None \<Rightarrow> False | Some v \<Rightarrow> v \<noteq> 0)"

definition truthy_flag :: "flag option \<Rightarrow> bool" where
  "truthy_flag x =
     (case x of None \<Rightarrow> False | Some (FlagBool b) \<Rightarrow> b | Some (FlagNum n) \<Rightarrow> n \<noteq> 0)"

text \<open>\<open>s || d\<close> on an optional string: \<open>undefined\<close> and the empty string are falsy.\<close>

definition str_or :: "string option \<Rightarrow> string \<Rightarrow> string" where
  "str_or x d = (case x of None \<Rightarrow> d | Some s \<Rightarrow> if s = [] then d else s)"

text \<open>
  One property of the object spread \<open>{ ...defaults, ...options }\<close>: a key of \<open>options\<close>
  wins, also when its value is \<open>undefined\<close>.
\<close>

definition spread :: "'a optional \<Rightarrow> 'a optional \<Rightarrow> 'a optional" where
  "spread d v = (case v of Absent \<Rightarrow> d | Undefined \<Rightarrow> Undefined | Value x \<Rightarrow> Value x)"

definition merge_options :: "JobOptions \<Rightarrow> JobOptions \<Rightarrow> JobOptions" where
  "merge_options d v =
     \<lparr> attempts = spread (attempts d) (attempts v),
       backoff = spread (backoff d) (backoff v),
       delay = spread (delay d) (delay v),
       priority = spread (priority d) (priority v),
       timeout = spread (timeout d) (timeout v),
       removeOnComplete = spread (removeOnComplete d) (removeOnComplete v),
       removeOnFail = spread (removeOnFail d) (removeOnFail v) \<rparr>"

definition no_options :: JobOptions where
  "no_options =
     \<lparr> attempts = Absent, backoff = Absent, delay = Absent, priority = Absent,
       timeout = Absent, removeOnComplete = Absent, removeOnFail = Absent \<rparr>"

text \<open>
  A job is stored as the text \<open>JSON.stringify(job)\<close> and read with \<open>JSON.parse\<close>. The
  model keeps, instead of the text, the job that \<open>JSON.parse\<close> reads from it:
  \<open>JSON.stringify\<close> leaves out the keys whose value is \<open>undefined\<close>. (Payloads are
  JSON values, which come back as they were.)
\<close>

definition drop_undefined :: "'a optional \<Rightarrow> 'a optional" where
  "drop_undefined p = (case p of Absent \<Rightarrow> Absent | Undefined \<Rightarrow> Absent | Value v \<Rightarrow> Value v)"

definition stored_options :: "JobOptions \<Rightarrow> JobOptions" where
  "stored_options v =
     \<lparr> attempts = drop_undefined (attempts v),
       backoff = drop_undefined (backoff v),
       delay = drop_undefined (delay v),
       priority = drop_undefined (priority v),
       timeout = drop_undefined (timeout v),
       removeOnComplete = drop_undefined (removeOnComplete v),
       removeOnFail = drop_undefined (removeOnFail v) \<rparr>"

definition stored :: "'t Job \<Rightarrow> 't Job" where
  "stored job = job\<lparr>options := stored_options (options job)\<rparr>"

section \<open>Backoff (src/utils/backoff.ts)\<close>

definition calculateBackoff :: "int \<Rightarrow> JobOptions \<Rightarrow> rat" where
  "calculateBackoff n opts =
     (case get_prop (backoff opts) of
        None \<Rightarrow> 0
      | Some b \<Rightarrow>
          (let d = num_or (Some (bdelay b)) 1000 in
           if btype b = ''exponential'' then d * 2 powi (n - 1)
           else if btype b = ''fixed'' then d
           else 0))"

section \<open>The Redis server, as far as the program uses it\<close>

text \<open>
  One hash per job: the field \<open>data\<close> holds the serialized job (the model keeps the job
  itself, \<open>JSON.parse (JSON.stringify job) = job\<close>), the field \<open>startedAt\<close> the
  timestamp written by the \<open>moveToActive\<close> script.
\<close>

record 't JobHash =
  h_data :: "'t Job option"
  h_startedAt :: "int option"

text \<open>
  The key space, by Redis type. A list is written head (left) first; a missing list or
  sorted set is the empty one. A sorted set is kept as member/score pairs, one pair per
  member; range queries sort them by score and then by member, as Redis does. Commands
  always reach the server and are applied to keys of their own type, so none fails.
\<close>

record 't Redis =
  lists :: "string \<Rightarrow> string list"
  zsets :: "string \<Rightarrow> (string \<times> rat) list"
  hashes :: "string \<Rightarrow> 't JobHash option"
  strings :: "string \<Rightarrow> string option"

definition empty_redis :: "'t Redis" where
  "empty_redis =
     \<lparr> lists = (\<lambda>k. []), zsets = (\<lambda>k. []), hashes = (\<lambda>k. None), strings = (\<lambda>k. None) \<rparr>"

definition lpush :: "string \<Rightarrow> string \<Rightarrow> 't Redis \<Rightarrow> 't Redis" where
  "lpush k v r = r\<lparr>lists := (lists r)(k := v # lists r k)\<rparr>"

definition rpop :: "string \<Rightarrow> 't Redis \<Rightarrow> string option \<times> 't Redis" where
  "rpop k r =
     (case lists r k of
        [] \<Rightarrow> (None, r)
      | x # xs \<Rightarrow> (Some (last (x # xs)), r\<lparr>lists := (lists r)(k := butlast (x # xs))\<rparr>))"

text \<open>\<open>LREM key 0 value\<close>: every occurrence is removed.\<close>

definition lrem :: "string \<Rightarrow> string \<Rightarrow> 't Redis \<Rightarrow> 't Redis" where
  "lrem k v r = r\<lparr>lists := (lists r)(k := removeAll v (lists r k))\<rparr>"

definition zadd :: "string \<Rightarrow> rat \<Rightarrow> string \<Rightarrow> 't Redis \<Rightarrow> 't Redis" where
  "zadd k sc m r =
     r\<lparr>zsets := (zsets r)(k := (m, sc) # filter (\<lambda>p. fst p \<noteq> m) (zsets r k))\<rparr>"

definition zrem :: "string \<Rightarrow> string \<Rightarrow> 't Redis \<Rightarrow> 't Redis" where
  "zrem k m r = r\<lparr>zsets := (zsets r)(k := filter (\<lambda>p. fst p \<noteq> m) (zsets r k))\<rparr>"

text \<open>\<open>ZRANGEBYSCORE key lo hi\<close>, both bounds inclusive.\<close>

definition zrangebyscore :: "string \<Rightarrow> rat \<Rightarrow> rat \<Rightarrow> 't Redis \<Rightarrow> string list" where
  "zrangebyscore k lo hi r =
     map fst (sort_key (\<lambda>p. (snd p, fst p))
       (filter (\<lambda>p. lo \<le> snd p \<and> snd p \<le> hi) (zsets r k)))"

definition hset_data :: "string \<Rightarrow> 't Job \<Rightarrow> 't Redis \<Rightarrow> 't Redis" where
  "hset_data k j r =
     r\<lparr>hashes := (hashes r)(k \<mapsto>
        (case hashes r k of
           None \<Rightarrow> \<lparr>h_data = Some j, h_startedAt = None\<rparr>
         | Some h \<Rightarrow> h\<lparr>h_data := Some j\<rparr>))\<rparr>"

definition hset_startedAt :: "string \<Rightarrow> int \<Rightarrow> 't Redis \<Rightarrow> 't Redis" where
  "hset_startedAt k ts r =
     r\<lparr>hashes := (hashes r)(k \<mapsto>
        (case hashes r k of
           None \<Rightarrow> \<lparr>h_data = None, h_startedAt = Some ts\<rparr>
         | Some h \<Rightarrow> h\<lparr>h_startedAt := Some ts\<rparr>))\<rparr>"

definition hget_data :: "string \<Rightarrow> 't Redis \<Rightarrow> 't Job option" where
  "hget_data k r = (case hashes r k of None \<Rightarrow> None | Some h \<Rightarrow> h_data h)"

text \<open>\<open>DEL key\<close> removes the key whatever its type.\<close>

definition del :: "string \<Rightarrow> 't Redis \<Rightarrow> 't Redis" where
  "del k r =
     r\<lparr>lists := (lists r)(k := []), zsets := (zsets r)(k := []),
       hashes := (hashes r)(k := None), strings := (strings r)(k := None)\<rparr>"

definition set_string :: "string \<Rightarrow> string \<Rightarrow> 't Redis \<Rightarrow> 't Redis" where
  "set_string k v r = (let r' = del k r in r'\<lparr>strings := (strings r')(k \<mapsto> v)\<rparr>)"

definition get_string :: "string \<Rightarrow> 't Redis \<Rightarrow> string option" where
  "get_string k r = strings r k"

text \<open>
  A \<open>multi()\<close> transaction is the list of the commands queued on it; \<open>exec()\<close> runs them
  in order, with no other client's command in between.
\<close>

datatype 't command =
    HSET string "'t Job"
  | LPUSH string string
  | LREM string string
  | ZADD string rat string
  | ZREM string string
  | DEL string

fun run_command :: "'t command \<Rightarrow> 't Redis \<Rightarrow> 't Redis" where
  "run_command (HSET k j) r = hset_data k j r"
| "run_command (LPUSH k v) r = lpush k v r"
| "run_command (LREM k v) r = lrem k v r"
| "run_command (ZADD k sc m) r = zadd k sc m r"
| "run_command (ZREM k m) r = zrem k m r"
| "run_command (DEL k) r = del k r"

fun exec :: "'t command list \<Rightarrow> 't Redis \<Rightarrow> 't Redis" where
  "exec [] r = r"
| "exec (c # cs) r = exec cs (run_command c r)"

section \<open>The server-side scripts (src/utils/scripts.ts)\<close>

definition moveToActive ::
  "string \<Rightarrow> string \<Rightarrow> string \<Rightarrow> int \<Rightarrow> 't Redis \<Rightarrow> string option \<times> 't Redis" where
  "moveToActive waitingKey activeKey jobsKey timestamp r =
     (case rpop waitingKey r of
        (None, r1) \<Rightarrow> (None, r1)
      | (Some jobId, r1) \<Rightarrow>
          (Some jobId,
           hset_startedAt (jobsKey @ '':'' @ jobId) timestamp (lpush activeKey jobId r1)))"

text \<open>The body of the \<open>for\<close> loop of \<open>processDelayed\<close>, over the ids of the range.\<close>

fun promote :: "string \<Rightarrow> string \<Rightarrow> string list \<Rightarrow> 't Redis \<Rightarrow> 't Redis" where
  "promote delayedKey waitingKey [] r = r"
| "promote delayedKey waitingKey (jobId # jobs) r =
     promote delayedKey waitingKey jobs (lpush waitingKey jobId (zrem delayedKey jobId r))"

definition processDelayed ::
  "string \<Rightarrow> string \<Rightarrow> int \<Rightarrow> 't Redis \<Rightarrow> string list \<times> 't Redis" where
  "processDelayed delayedKey waitingKey timestamp r =
     (let jobs = zrangebyscore delayedKey 0 (of_int timestamp) r in
      (jobs, if length jobs > 0 then promote delayedKey waitingKey jobs r else r))"

section \<open>Events\<close>

datatype 't event =
    E_ready
  | E_added "'t Job"
  | E_removed string
  | E_paused
  | E_resumed
  | E_closed
  | E_processing "'t Job"
  | E_failed "'t Job" JsError
  | E_retrying "'t Job"
  | E_completed string
  | E_error JsError

section \<open>The producer (src/queue/Queue.ts)\<close>

text \<open>
  The queue object after its client has been created. Every operation takes the state of
  the server and returns what it returns or throws (\<open>Inl\<close> the error), the state of the
  server afterwards and the events it emitted, in order.
\<close>

record Queue =
  qname :: string
  prefix :: string
  defaultJobOptions :: JobOptions
  isReady :: bool

text \<open>
  The constructor (\<open>options.prefix || 'jet'\<close>, \<open>options.defaultJobOptions || {}\<close>) and
  the successful run of \<open>initialize\<close>.
\<close>

definition new_Queue :: "string \<Rightarrow> string option \<Rightarrow> JobOptions option \<Rightarrow> Queue" where
  "new_Queue nm pre dflt =
     \<lparr> qname = nm, prefix = str_or pre ''jet'',
       defaultJobOptions = (case dflt of None \<Rightarrow> no_options | Some d \<Rightarrow> d),
       isReady = False \<rparr>"

definition initialize :: "Queue \<Rightarrow> Queue \<times> 't event list" where
  "initialize q = (q\<lparr>isReady := True\<rparr>, [E_ready])"

text \<open>The queue of tests/unit/Queue.test.ts, once it has emitted \<open>ready\<close>.\<close>

definition test_queue :: Queue where
  "test_queue = fst (initialize (new_Queue ''test-queue'' None None) :: Queue \<times> unit event list)"

definition getQueueKey :: "string \<Rightarrow> string \<Rightarrow> string \<Rightarrow> string" where
  "getQueueKey pre nm ty = pre @ '':'' @ nm @ '':'' @ ty"

definition queue_key :: "Queue \<Rightarrow> string \<Rightarrow> string" where
  "queue_key q ty = getQueueKey (prefix q) (qname q) ty"


definition add ::
  "Queue \<Rightarrow> 't Redis \<Rightarrow> string \<Rightarrow> 't \<Rightarrow> JobOptions \<Rightarrow> string \<Rightarrow> int \<Rightarrow> int
     \<Rightarrow> (error + 't Job) \<times> 't Redis \<times> 't event list" where
  "add q r nm d opts uuid now1 now2 =
     (if \<not> isReady q then (Inl (QueueError ''Queue is not ready''), r, [])
      else
        let job = \<lparr> job_id = uuid, name = nm, data = d,
                    options = merge_options (defaultJobOptions q) opts,
                    createdAt = now1,
                    status = (if truthy_num (get_prop (delay opts)) then Delayed else Waiting),
                    attemptsMade = 0,
                    returnValue = None, failedReason = None, stackTrace = None \<rparr>;
            multi = [HSET (queue_key q (''job:'' @ job_id job)) (stored job)] @
                    (if status job = Delayed
                     then [ZADD (queue_key q ''delayed'')
                             (of_int now2 + num_or (get_prop (delay opts)) 0) (job_id job)]
                     else [LPUSH (queue_key q ''waiting'') (job_id job)])
        in (Inr job, exec multi r, [E_added job]))"

text \<open>\<open>getJob\<close> returns \<open>Job | null\<close>: \<open>Some\<close> the job, or \<open>None\<close> for \<open>null\<close>.\<close>

definition getJob :: "Queue \<Rightarrow> 't Redis \<Rightarrow> string \<Rightarrow> error + 't Job option" where
  "getJob q r jobId =
     (case hget_data (queue_key q (''job:'' @ jobId)) r of
        None \<Rightarrow> Inl (JobError (''Job with id '' @ jobId @ '' not found''))
      | Some job \<Rightarrow> Inr (Some job))"

definition removeJob ::
  "Queue \<Rightarrow> 't Redis \<Rightarrow> string \<Rightarrow> (error + unit) \<times> 't Redis \<times> 't event list" where
  "removeJob q r jobId =
     (case getJob q r jobId of
        Inl e \<Rightarrow> (Inl e, r, [])
      | Inr None \<Rightarrow> (Inr (), r, [])
      | Inr (Some job) \<Rightarrow>
          (let multi = [LREM (queue_key q ''waiting'') jobId,
                        LREM (queue_key q ''active'') jobId,
                        ZREM (queue_key q ''delayed'') jobId,
                        DEL (queue_key q (''job:'' @ jobId))]
           in (Inr (), exec multi r, [E_removed jobId])))"

definition pause :: "Queue \<Rightarrow> 't Redis \<Rightarrow> 't Redis \<times> 't event list" where
  "pause q r = (set_string (queue_key q ''paused'') ''1'' r, [E_paused])"

definition resume :: "Queue \<Rightarrow> 't Redis \<Rightarrow> 't Redis \<times> 't event list" where
  "resume q r = (del (queue_key q ''paused'') r, [E_resumed])"

definition isPaused :: "Queue \<Rightarrow> 't Redis \<Rightarrow> bool" where
  "isPaused q r =
     (case get_string (queue_key q ''paused'') r of None \<Rightarrow> False | Some v \<Rightarrow> v \<noteq> [])"

definition close :: "Queue \<Rightarrow> Queue \<times> 't event list" where
  "close q = (if isReady q then (q\<lparr>isReady := False\<rparr>, [E_closed]) else (q, []))"

section \<open>The worker (src/worker/Worker.ts)\<close>

text \<open>
  \<open>'h\<close> is the type of the handler function. \<open>maxJobsPerWorker = None\<close> is
  \<open>Infinity\<close>.
\<close>

record 'h Worker =
  wname :: string
  wprefix :: string
  isRunning :: bool
  processFn :: "'h option"
  concurrency :: rat
  maxJobsPerWorker :: "rat option"

text \<open>
  The constructor: \<open>options.prefix || 'jet'\<close>, \<open>workerOptions.concurrency || 1\<close>,
  \<open>workerOptions.maxJobsPerWorker || Infinity\<close>.
\<close>

definition new_Worker ::
  "string \<Rightarrow> string option \<Rightarrow> rat option \<Rightarrow> rat option \<Rightarrow> 'h Worker" where
  "new_Worker nm pre conc cap =
     \<lparr> wname = nm, wprefix = str_or pre ''jet'', isRunning = False, processFn = None,
       concurrency = num_or conc 1,
       maxJobsPerWorker = (if truthy_num cap then cap else None) \<rparr>"

definition worker_key :: "'h Worker \<Rightarrow> string \<Rightarrow> string" where
  "worker_key w ty = getQueueKey (wprefix w) (wname w) ty"

text \<open>
  What a worker method does besides changing the worker and the server: the events it
  emits, the background loops it starts, its sleeps, the script it invokes and the
  per-job tasks it spawns.
\<close>

datatype 't effect =
    Emit "'t event"
  | Start_processJobs
  | Start_processDelayedJobs
  | Invoke_moveToActive
  | Spawn_processJob string
  | Sleep nat
  | Await_race
  | Exit_loop

definition process ::
  "'h Worker \<Rightarrow> 'h \<Rightarrow> (error + unit) \<times> 'h Worker \<times> 't effect list" where
  "process w fn =
     (if processFn w \<noteq> None
      then (Inl (WorkerError ''Cannot set multiple process functions''), w, [])
      else (Inr (), w\<lparr>processFn := Some fn, isRunning := True\<rparr>,
            [Start_processJobs, Start_processDelayedJobs]))"

text \<open>
  \<open>getNextJob\<close>; \<open>now\<close> is its reading of \<open>Date.now()\<close>. The call of the script through
  the client may be rejected (the connection is lost, the server answers with an error):
  \<open>failure\<close> is \<open>Some\<close> the error then, and the script has not run; \<open>getNextJob\<close>
  throws it (\<open>Inl\<close>).
\<close>

definition getNextJob ::
  "'h Worker \<Rightarrow> 't Redis \<Rightarrow> int \<Rightarrow> JsError option
     \<Rightarrow> (JsError + string option) \<times> 't Redis \<times> 't effect list" where
  "getNextJob w r now failure =
     (if processFn w = None then (Inr None, r, [])
      else
        (case failure of
           Some e \<Rightarrow> (Inl e, r, [Invoke_moveToActive])
         | None \<Rightarrow>
             (case moveToActive (worker_key w ''waiting'') (worker_key w ''active'')
                     (worker_key w ''job'') now r of
                (jobId, r') \<Rightarrow>
                  (Inr (case jobId of None \<Rightarrow> None | Some i \<Rightarrow> if i = [] then None else Some i),
                   r', [Invoke_moveToActive]))))"

text \<open>
  One pass of the \<open>while\<close> loop of \<open>processJobs\<close>. The loop's variables are
  \<open>activeJobs.size\<close> and \<open>processedJobsCount\<close>; tasks in flight finish, and other
  clients change the server, between two passes. A pass that finds
  \<open>activeJobs.size >= concurrency\<close> awaits \<open>Promise.race\<close> and tests again. What
  \<open>getNextJob\<close> throws is caught: the pass emits \<open>error\<close> and sleeps 100 ms.
\<close>

record dispatcher =
  activeJobs_size :: nat
  processedJobsCount :: nat

definition below_cap :: "nat \<Rightarrow> rat option \<Rightarrow> bool" where
  "below_cap n cap = (case cap of None \<Rightarrow> True | Some m \<Rightarrow> of_nat n < m)"

definition processJobs_pass ::
  "'h Worker \<Rightarrow> 't Redis \<Rightarrow> int \<Rightarrow> JsError option \<Rightarrow> dispatcher
     \<Rightarrow> dispatcher \<times> 't Redis \<times> 't effect list" where
  "processJobs_pass w r now failure st =
     (if \<not> (isRunning w \<and> below_cap (processedJobsCount st) (maxJobsPerWorker w))
      then (st, r, [Exit_loop])
      else if of_nat (activeJobs_size st) \<ge> concurrency w then (st, r, [Await_race])
      else
        (case getNextJob w r now failure of
           (Inl e, r', fx) \<Rightarrow> (st, r', fx @ [Emit (E_error e), Sleep 100])
         | (Inr None, r', fx) \<Rightarrow> (st, r', fx @ [Sleep 100])
         | (Inr (Some jobId), r', fx) \<Rightarrow>
             (st\<lparr>activeJobs_size := Suc (activeJobs_size st),
                 processedJobsCount := Suc (processedJobsCount st)\<rparr>,
              r', fx @ [Spawn_processJob jobId])))"

text \<open>\<open>failJob\<close>; \<open>now\<close> is the reading of \<open>Date.now()\<close> in the retry branch.\<close>

definition failJob ::
  "'h Worker \<Rightarrow> 't Redis \<Rightarrow> string \<Rightarrow> JsError \<Rightarrow> int \<Rightarrow> 't Redis \<times> 't effect list" where
  "failJob w r jobId err now =
     (let jobKey = worker_key w (''job:'' @ jobId) in
      case hget_data jobKey r of
        None \<Rightarrow> (r, [])
      | Some job0 \<Rightarrow>
          (let job1 = job0\<lparr> attemptsMade := num_or (Some (attemptsMade job0)) 0 + 1,
                            failedReason := Some (message err),
                            stackTrace := Some ((case stackTrace job0 of None \<Rightarrow> [] | Some t \<Rightarrow> t)
                                                @ [str_or (stack err) (message err)]) \<rparr>;
               shouldRetry =
                 (of_int (attemptsMade job1) < num_or (get_prop (attempts (options job1))) 1)
           in if shouldRetry then
                (let backoffDelay = calculateBackoff (attemptsMade job1) (options job1);
                     job = job1\<lparr>status := Delayed\<rparr>;
                     multi = [ZADD (worker_key w ''delayed'') (of_int now + backoffDelay)
                                (job_id job),
                              HSET jobKey (stored job),
                              LREM (worker_key w ''active'') (job_id job)]
                 in (exec multi r, [Emit (E_failed job err), Emit (E_retrying job)]))
              else
                (let job = job1\<lparr>status := Failed\<rparr>;
                     multi = [LREM (worker_key w ''active'') (job_id job)] @
                             (if truthy_flag (get_prop (removeOnFail (options job)))
                              then [DEL jobKey] else [HSET jobKey (stored job)])
                 in (exec multi r, [Emit (E_failed job err)]))))"

section \<open>Test data\<close>

text \<open>The server after the first \<open>add\<close> of the unit tests, on an empty server.\<close>

definition one_job_redis :: "string Redis" where
  "one_job_redis =
     fst (snd (add test_queue empty_redis ''test-job'' ''bar'' no_options ''a'' 1 1))"

text \<open>
  A worker on the same queue, after \<open>process\<close> has installed a handler (the handler
  itself plays no part, it is \<open>()\<close>).
\<close>

definition test_worker :: "unit Worker" where
  "test_worker =
     (new_Worker ''test-queue'' None None None)\<lparr>processFn := Some (), isRunning := True\<rparr>"

text \<open>
  The server after \<open>add('test-job', 'bar', opts)\<close> on an empty server has given the job
  the id \<open>a\<close>, and \<open>moveToActive\<close> has dispatched it at time 2.
\<close>

definition dispatched_redis :: "JobOptions \<Rightarrow> string Redis" where
  "dispatched_redis opts =
     snd (moveToActive (worker_key test_worker ''waiting'') (worker_key test_worker ''active'')
            (worker_key test_worker ''job'') 2
            (fst (snd (add test_queue empty_redis ''test-job'' ''bar'' opts ''a'' 1 1))))"

text \<open>A handler's error, and the server after the dispatched job has failed with it.\<close>

definition boom :: JsError where
  "boom = \<lparr>message = ''boom'', stack = None\<rparr>"

definition failed_once :: "JobOptions \<Rightarrow> string Redis" where
  "failed_once opts = fst (failJob test_worker (dispatched_redis opts) ''a'' boom 100)"

text \<open>
  The server after that job has been promoted at time 2000, dispatched again at 2001 and
  has failed again at 2002.
\<close>

definition failed_twice :: "JobOptions \<Rightarrow> string Redis" where
  "failed_twice opts =
     fst (failJob test_worker
            (snd (moveToActive (worker_key test_worker ''waiting'')
                    (worker_key test_worker ''active'') (worker_key test_worker ''job'') 2001
                    (snd (processDelayed (worker_key test_worker ''delayed'')
                            (worker_key test_worker ''waiting'') 2000 (failed_once opts)))))
            ''a'' boom 2002)"

section \<open>Properties of the Redis commands\<close>

lemmas redis_defs = lpush_def lrem_def zadd_def zrem_def hset_data_def hget_data_def del_def

lemmas test_defs = one_job_redis_def add_def test_queue_def initialize_def new_Queue_def
  str_or_def truthy_num_def no_options_def merge_options_def spread_def queue_key_def
  getQueueKey_def empty_redis_def Let_def num_or_def get_prop_def stored_def
  stored_options_def drop_undefined_def

lemma lists_lpush [simp]: "lists (lpush k v r) = (lists r)(k := v # lists r k)"
  and zsets_lpush [simp]: "zsets (lpush k v r) = zsets r"
  and hashes_lpush [simp]: "hashes (lpush k v r) = hashes r"
  and strings_lpush [simp]: "strings (lpush k v r) = strings r"
  by (simp_all add: lpush_def)

lemma lists_lrem [simp]: "lists (lrem k v r) = (lists r)(k := removeAll v (lists r k))"
  and zsets_lrem [simp]: "zsets (lrem k v r) = zsets r"
  and hashes_lrem [simp]: "hashes (lrem k v r) = hashes r"
  and strings_lrem [simp]: "strings (lrem k v r) = strings r"
  by (simp_all add: lrem_def)

lemma lists_zadd [simp]: "lists (zadd k sc m r) = lists r"
  and zsets_zadd [simp]:
    "zsets (zadd k sc m r) = (zsets r)(k := (m, sc) # filter (\<lambda>p. fst p \<noteq> m) (zsets r k))"
  and hashes_zadd [simp]: "hashes (zadd k sc m r) = hashes r"
  and strings_zadd [simp]: "strings (zadd k sc m r) = strings r"
  by (simp_all add: zadd_def)

lemma lists_zrem [simp]: "lists (zrem k m r) = lists r"
  and zsets_zrem [simp]:
    "zsets (zrem k m r) = (zsets r)(k := filter (\<lambda>p. fst p \<noteq> m) (zsets r k))"
  and hashes_zrem [simp]: "hashes (zrem k m r) = hashes r"
  and strings_zrem [simp]: "strings (zrem k m r) = strings r"
  by (simp_all add: zrem_def)

lemma lists_hset_data [simp]: "lists (hset_data k j r) = lists r"
  and zsets_hset_data [simp]: "zsets (hset_data k j r) = zsets r"
  and strings_hset_data [simp]: "strings (hset_data k j r) = strings r"
  by (simp_all add: hset_data_def)

lemma lists_hset_startedAt [simp]: "lists (hset_startedAt k ts r) = lists r"
  and zsets_hset_startedAt [simp]: "zsets (hset_startedAt k ts r) = zsets r"
  and strings_hset_startedAt [simp]: "strings (hset_startedAt k ts r) = strings r"
  by (simp_all add: hset_startedAt_def)

lemma lists_del [simp]: "lists (del k r) = (lists r)(k := [])"
  and zsets_del [simp]: "zsets (del k r) = (zsets r)(k := [])"
  and hashes_del [simp]: "hashes (del k r) = (hashes r)(k := None)"
  and strings_del [simp]: "strings (del k r) = (strings r)(k := None)"
  by (simp_all add: del_def)

lemma hget_data_hset_data [simp]:
  "hget_data k (hset_data k' j r) = (if k = k' then Some j else hget_data k r)"
  by (simp add: hget_data_def hset_data_def split: option.splits)

lemma hget_data_hset_startedAt [simp]:
  "hget_data k (hset_startedAt k' ts r) = hget_data k r"
  by (simp add: hget_data_def hset_startedAt_def split: option.splits)

lemma hget_data_del [simp]:
  "hget_data k (del k' r) = (if k = k' then None else hget_data k r)"
  by (simp add: hget_data_def)

lemma hget_data_lists_only [simp]:
  "hget_data k (lpush k' v r) = hget_data k r"
  "hget_data k (lrem k' v r) = hget_data k r"
  "hget_data k (zadd k' sc m r) = hget_data k r"
  "hget_data k (zrem k' m r) = hget_data k r"
  by (simp_all add: hget_data_def)

lemma hashes_hset_startedAt_other:
  "k \<noteq> k' \<Longrightarrow> hashes (hset_startedAt k' ts r) k = hashes r k"
  by (simp add: hset_startedAt_def)

lemma startedAt_hset_startedAt:
  "\<exists>h. hashes (hset_startedAt k ts r) k = Some h \<and> h_startedAt h = Some ts"
  by (simp add: hset_startedAt_def split: option.splits)

lemma hget_data_lists_update [simp]: "hget_data k (r\<lparr>lists := f\<rparr>) = hget_data k r"
  by (simp add: hget_data_def)

lemma lists_promote [simp]:
  "lists (promote dk wk jobs r) = (lists r)(wk := rev jobs @ lists r wk)"
  by (induction jobs arbitrary: r) simp_all

lemma zsets_promote [simp]:
  "zsets (promote dk wk jobs r)
     = (zsets r)(dk := filter (\<lambda>p. fst p \<notin> set jobs) (zsets r dk))"
proof (induction jobs arbitrary: r)
  case Nil
  then show ?case by simp
next
  case (Cons j jobs)
  have "filter (\<lambda>p. fst p \<notin> set jobs) (filter (\<lambda>p. fst p \<noteq> j) (zsets r dk))
      = filter (\<lambda>p. fst p \<notin> set (j # jobs)) (zsets r dk)"
    by (auto intro: filter_cong)
  then show ?case
    by (simp add: Cons.IH fun_eq_iff)
qed

lemma hashes_promote [simp]: "hashes (promote dk wk jobs r) = hashes r"
  by (induction jobs arbitrary: r) simp_all

lemma strings_promote [simp]: "strings (promote dk wk jobs r) = strings r"
  by (induction jobs arbitrary: r) simp_all

lemma set_zrangebyscore:
  "set (zrangebyscore k lo hi r) = {m. \<exists>s. (m, s) \<in> set (zsets r k) \<and> lo \<le> s \<and> s \<le> hi}"
  by (force simp add: zrangebyscore_def)

lemma distinct_zrangebyscore:
  "distinct (map fst (zsets r k)) \<Longrightarrow> distinct (zrangebyscore k lo hi r)"
  by (simp add: zrangebyscore_def distinct_map inj_on_def)

lemma filter_not_in_range:
  assumes "distinct (map fst zs)"
  shows "filter (\<lambda>p. fst p \<notin> {m. \<exists>s. (m, s) \<in> set zs \<and> lo \<le> s \<and> s \<le> hi}) zs
       = filter (\<lambda>p. \<not> (lo \<le> snd p \<and> snd p \<le> (hi::rat))) zs"
proof (rule filter_cong[OF refl])
  fix p assume p: "p \<in> set zs"
  obtain m sc where pm: "p = (m, sc)" by (cases p)
  have u: "s = sc" if "(m, s) \<in> set zs" for s
    using eq_key_imp_eq_value[OF assms that] p pm by simp
  have "(\<exists>s. (m, s) \<in> set zs \<and> lo \<le> s \<and> s \<le> hi) = (lo \<le> sc \<and> sc \<le> hi)"
  proof
    assume "\<exists>s. (m, s) \<in> set zs \<and> lo \<le> s \<and> s \<le> hi"
    then obtain s where s: "(m, s) \<in> set zs" "lo \<le> s" "s \<le> hi" by blast
    from u[OF s(1)] s(2,3) show "lo \<le> sc \<and> sc \<le> hi" by simp
  next
    assume "lo \<le> sc \<and> sc \<le> hi"
    with p pm show "\<exists>s. (m, s) \<in> set zs \<and> lo \<le> s \<and> s \<le> hi" by blast
  qed
  then show "(fst p \<notin> {m. \<exists>s. (m, s) \<in> set zs \<and> lo \<le> s \<and> s \<le> hi})
      = (\<not> (lo \<le> snd p \<and> snd p \<le> hi))"
    by (simp add: pm)
qed


lemma num_or_self [simp]: "num_or (Some v) 0 = v"
  by (simp add: num_or_def)

lemma spread_Absent [simp]: "spread Absent v = v"
  by (cases v) (simp_all add: spread_def)

lemma hget_data_promote [simp]: "hget_data k (promote dk wk jobs r) = hget_data k r"
  by (simp add: hget_data_def)

lemma hget_data_processDelayed [simp]:
  "hget_data k (snd (processDelayed dk wk ts r)) = hget_data k r"
  by (simp add: processDelayed_def Let_def)

lemma hget_data_moveToActive [simp]:
  "hget_data k (snd (moveToActive wk ak jk ts r)) = hget_data k r"
  by (simp add: moveToActive_def rpop_def split: list.splits)

lemma merge_no_options [simp]: "merge_options no_options opts = opts"
  by (simp add: merge_options_def no_options_def)

text \<open>
  A key passed as \<open>undefined\<close> overrides the default in the merged options, as in
  \<open>{ ...{attempts: 3}, ...{attempts: undefined} }\<close>, and is left out of the stored job.
\<close>

lemma merge_options_undefined_wins:
  "attempts (merge_options (no_options\<lparr>attempts := Value 3\<rparr>)
               (no_options\<lparr>attempts := Undefined\<rparr>)) = Undefined \<and>
   attempts (stored_options (merge_options (no_options\<lparr>attempts := Value 3\<rparr>)
               (no_options\<lparr>attempts := Undefined\<rparr>))) = Absent"
  by (simp add: merge_options_def no_options_def spread_def stored_options_def
      drop_undefined_def)

lemma test_worker_key: "worker_key test_worker ty = ''jet:test-queue:'' @ ty"
  by (simp add: worker_key_def test_worker_def new_Worker_def getQueueKey_def str_or_def)

lemma test_queue_key: "queue_key test_queue ty = ''jet:test-queue:'' @ ty"
  by (simp add: queue_key_def test_queue_def new_Queue_def initialize_def getQueueKey_def str_or_def)

lemma test_queue_fields:
  "isReady test_queue" "defaultJobOptions test_queue = no_options"
  by (simp_all add: test_queue_def new_Queue_def initialize_def)

lemma dispatched_job:
  "hget_data ''jet:test-queue:job:a'' (dispatched_redis opts)
     = Some \<lparr>job_id = ''a'', name = ''test-job'', data = ''bar'',
        options = stored_options opts, createdAt = 1,
        status = (if truthy_num (get_prop (delay opts)) then Delayed else Waiting),
        attemptsMade = 0,
        returnValue = None, failedReason = None, stackTrace = None\<rparr>"
  by (simp add: dispatched_redis_def add_def test_worker_key test_queue_key test_queue_fields
      Let_def stored_def)

lemma rpop_strings:
  "rpop k (r\<lparr>strings := ss\<rparr>) = (fst (rpop k r), (snd (rpop k r))\<lparr>strings := ss\<rparr>)"
  by (simp add: rpop_def split: list.splits)

lemma lpush_strings: "lpush k v (r\<lparr>strings := ss\<rparr>) = (lpush k v r)\<lparr>strings := ss\<rparr>"
  by (simp add: lpush_def)

lemma hset_startedAt_strings:
  "hset_startedAt k ts (r\<lparr>strings := ss\<rparr>) = (hset_startedAt k ts r)\<lparr>strings := ss\<rparr>"
  by (simp add: hset_startedAt_def)

lemma moveToActive_strings:
  "moveToActive wk ak jk ts (r\<lparr>strings := ss\<rparr>)
     = (fst (moveToActive wk ak jk ts r), (snd (moveToActive wk ak jk ts r))\<lparr>strings := ss\<rparr>)"
  by (simp add: moveToActive_def rpop_strings lpush_strings hset_startedAt_strings
      split: prod.splits option.splits)

lemma getNextJob_strings:
  "getNextJob w (r\<lparr>strings := ss\<rparr>) now failure
     = (case getNextJob w r now failure of (i, r', fx) \<Rightarrow> (i, r'\<lparr>strings := ss\<rparr>, fx))"
  by (simp add: getNextJob_def moveToActive_strings split: prod.splits option.splits)

lemma fst_moveToActive:
  "fst (moveToActive wk ak jk ts r) = (if lists r wk = [] then None else Some (last (lists r wk)))"
  by (simp add: moveToActive_def rpop_def split: list.splits)

text \<open>
  A sorted set has one score per member. Every command and both scripts keep it so.
\<close>

lemma run_command_zset_distinct:
  "distinct (map fst (zsets r k)) \<Longrightarrow> distinct (map fst (zsets (run_command c r) k))"
  by (cases c) (auto simp add: distinct_map_filter)

lemma exec_zset_distinct:
  "distinct (map fst (zsets r k)) \<Longrightarrow> distinct (map fst (zsets (exec cs r) k))"
  by (induction cs arbitrary: r) (simp_all add: run_command_zset_distinct)

lemma promote_zset_distinct:
  "distinct (map fst (zsets r k)) \<Longrightarrow> distinct (map fst (zsets (promote dk wk jobs r) k))"
  by (auto simp add: distinct_map_filter)

lemma close_again:
  "((\<lambda>x. fst (close x :: Queue \<times> 't event list)) ^^ n) (q\<lparr>isReady := False\<rparr>)
     = q\<lparr>isReady := False\<rparr>"
  by (induction n) (simp_all add: close_def)

section \<open>Scripts\<close>

text \<open>
  C4 says that \<open>processDelayed\<close> (the specification's \<open>promoteDelayed\<close>) promotes the ids
  whose score lies in \<open>(-\<infinity>, nowMs]\<close>. The script ranges with
  \<open>ZRANGEBYSCORE delayedKey 0 timestamp\<close>: an id with a negative score is never
  promoted. A job added at time 1700000000000 with \<open>delay: -1700000000001\<close> has score
  \<open>-1\<close>; a second later the script promotes nothing and leaves the server as it was.
\<close>

theorem processDelayed_counterexample:
  "zsets (fst (snd (add test_queue (empty_redis :: string Redis) ''t'' ''bar''
             (no_options\<lparr>delay := Value (- 1700000000001)\<rparr>) ''a''
             1700000000000 1700000000000)))
     (queue_key test_queue ''delayed'') = [(''a'', - 1)] \<and>
   (- 1 :: rat) \<le> of_int 1700000001000 \<and>
   processDelayed (queue_key test_queue ''delayed'') (queue_key test_queue ''waiting'')
     1700000001000
     (fst (snd (add test_queue (empty_redis :: string Redis) ''t'' ''bar''
             (no_options\<lparr>delay := Value (- 1700000000001)\<rparr>) ''a''
             1700000000000 1700000000000)))
   = ([], fst (snd (add test_queue (empty_redis :: string Redis) ''t'' ''bar''
             (no_options\<lparr>delay := Value (- 1700000000001)\<rparr>) ''a''
             1700000000000 1700000000000)))"
  by (simp add: processDelayed_def zrangebyscore_def add_def test_queue_fields test_queue_key
      truthy_num_def num_or_def no_options_def empty_redis_def Let_def get_prop_def)

text \<open>
  C4 (amended): \<open>processDelayed(delayedKey, waitingKey, nowMs)\<close> removes from the
  delayed sorted set exactly those ids whose score lies in \<open>[0, nowMs]\<close>, pushes each of
  them onto the head of the waiting list (in the order of the range, so that they end up
  reversed in front of the old list), and returns the list of promoted ids; every other
  id remains in delayed with its score, and each promoted id is moved once. Nothing
  else on the server changes. The hypothesis is the invariant of a sorted set: one
  score per member.
\<close>

theorem processDelayed_promotes:
  assumes "distinct (map fst (zsets r delayedKey))"
  shows "\<exists>jobs r'. processDelayed delayedKey waitingKey nowMs r = (jobs, r') \<and>
     set jobs = {m. \<exists>s. (m, s) \<in> set (zsets r delayedKey) \<and> 0 \<le> s \<and> s \<le> of_int nowMs} \<and>
     distinct jobs \<and>
     zsets r' delayedKey = filter (\<lambda>p. \<not> (0 \<le> snd p \<and> snd p \<le> of_int nowMs)) (zsets r delayedKey) \<and>
     lists r' waitingKey = rev jobs @ lists r waitingKey \<and>
     (\<forall>k. k \<noteq> delayedKey \<longrightarrow> zsets r' k = zsets r k) \<and>
     (\<forall>k. k \<noteq> waitingKey \<longrightarrow> lists r' k = lists r k) \<and>
     hashes r' = hashes r \<and> strings r' = strings r"
proof -
  let ?jobs = "zrangebyscore delayedKey 0 (of_int nowMs) r"
  let ?r' = "promote delayedKey waitingKey ?jobs r"
  have eq: "processDelayed delayedKey waitingKey nowMs r = (?jobs, ?r')"
    by (cases ?jobs) (simp_all add: processDelayed_def Let_def)
  have s: "set ?jobs = {m. \<exists>s. (m, s) \<in> set (zsets r delayedKey) \<and> 0 \<le> s \<and> s \<le> of_int nowMs}"
    by (rule set_zrangebyscore)
  have d: "distinct ?jobs" using assms by (rule distinct_zrangebyscore)
  have z: "zsets ?r' delayedKey
      = filter (\<lambda>p. \<not> (0 \<le> snd p \<and> snd p \<le> of_int nowMs)) (zsets r delayedKey)"
    using filter_not_in_range[OF assms, of 0 "of_int nowMs"]
    by (simp add: s)
  have l: "lists ?r' waitingKey = rev ?jobs @ lists r waitingKey"
    by simp
  have oz: "\<forall>k. k \<noteq> delayedKey \<longrightarrow> zsets ?r' k = zsets r k"
    by simp
  have ol: "\<forall>k. k \<noteq> waitingKey \<longrightarrow> lists ?r' k = lists r k"
    by simp
  have hs: "hashes ?r' = hashes r \<and> strings ?r' = strings r"
    by simp
  from eq s d z l oz ol hs show ?thesis
    by blast
qed




theorem processDelayed_promotes_witness:
  "distinct (map fst [(''a'', 3::rat), (''b'', 9), (''c'', 1), (''d'', - 2)]) \<and>
   set (fst (processDelayed ''jet:q:delayed'' ''jet:q:waiting'' 5 ((empty_redis :: string Redis)\<lparr>
        lists := (\<lambda>k. [])(''jet:q:waiting'' := [''w'']),
        zsets := (\<lambda>k. [])(''jet:q:delayed'' := [(''a'', 3), (''b'', 9), (''c'', 1), (''d'', - 2)])\<rparr>))) = {''a'', ''c''} \<and>
   zsets (snd (processDelayed ''jet:q:delayed'' ''jet:q:waiting'' 5 ((empty_redis :: string Redis)\<lparr>
        lists := (\<lambda>k. [])(''jet:q:waiting'' := [''w'']),
        zsets := (\<lambda>k. [])(''jet:q:delayed'' := [(''a'', 3), (''b'', 9), (''c'', 1), (''d'', - 2)])\<rparr>)))
     ''jet:q:delayed'' = [(''b'', 9), (''d'', - 2)] \<and>
   lists (snd (processDelayed ''jet:q:delayed'' ''jet:q:waiting'' 5 ((empty_redis :: string Redis)\<lparr>
        lists := (\<lambda>k. [])(''jet:q:waiting'' := [''w'']),
        zsets := (\<lambda>k. [])(''jet:q:delayed'' := [(''a'', 3), (''b'', 9), (''c'', 1), (''d'', - 2)])\<rparr>)))
     ''jet:q:waiting'' = rev (fst (processDelayed ''jet:q:delayed'' ''jet:q:waiting'' 5 ((empty_redis :: string Redis)\<lparr>
        lists := (\<lambda>k. [])(''jet:q:waiting'' := [''w'']),
        zsets := (\<lambda>k. [])(''jet:q:delayed'' := [(''a'', 3), (''b'', 9), (''c'', 1), (''d'', - 2)])\<rparr>))) @ [''w'']"
proof -
  have h: "distinct (map fst (zsets ((empty_redis :: string Redis)\<lparr>
        lists := (\<lambda>k. [])(''jet:q:waiting'' := [''w'']),
        zsets := (\<lambda>k. [])(''jet:q:delayed'' := [(''a'', 3), (''b'', 9), (''c'', 1), (''d'', - 2)])\<rparr>) ''jet:q:delayed''))" by simp
  have "\<exists>jobs r'. processDelayed ''jet:q:delayed'' ''jet:q:waiting'' 5 ((empty_redis :: string Redis)\<lparr>
        lists := (\<lambda>k. [])(''jet:q:waiting'' := [''w'']),
        zsets := (\<lambda>k. [])(''jet:q:delayed'' := [(''a'', 3), (''b'', 9), (''c'', 1), (''d'', - 2)])\<rparr>) = (jobs, r') \<and>
     set jobs = {m. \<exists>s. (m, s) \<in> set (zsets ((empty_redis :: string Redis)\<lparr>
        lists := (\<lambda>k. [])(''jet:q:waiting'' := [''w'']),
        zsets := (\<lambda>k. [])(''jet:q:delayed'' := [(''a'', 3), (''b'', 9), (''c'', 1), (''d'', - 2)])\<rparr>) ''jet:q:delayed'') \<and> 0 \<le> s \<and> s \<le> of_int 5} \<and>
     zsets r' ''jet:q:delayed'' = filter (\<lambda>p. \<not> (0 \<le> snd p \<and> snd p \<le> of_int 5)) (zsets ((empty_redis :: string Redis)\<lparr>
        lists := (\<lambda>k. [])(''jet:q:waiting'' := [''w'']),
        zsets := (\<lambda>k. [])(''jet:q:delayed'' := [(''a'', 3), (''b'', 9), (''c'', 1), (''d'', - 2)])\<rparr>) ''jet:q:delayed'') \<and>
     lists r' ''jet:q:waiting'' = rev jobs @ lists ((empty_redis :: string Redis)\<lparr>
        lists := (\<lambda>k. [])(''jet:q:waiting'' := [''w'']),
        zsets := (\<lambda>k. [])(''jet:q:delayed'' := [(''a'', 3), (''b'', 9), (''c'', 1), (''d'', - 2)])\<rparr>) ''jet:q:waiting''"
    using processDelayed_promotes [OF h, of "''jet:q:waiting''" 5] by (elim exE conjE) (intro exI conjI, assumption+)
  then obtain jobs r' where
    p: "processDelayed ''jet:q:delayed'' ''jet:q:waiting'' 5 ((empty_redis :: string Redis)\<lparr>
        lists := (\<lambda>k. [])(''jet:q:waiting'' := [''w'']),
        zsets := (\<lambda>k. [])(''jet:q:delayed'' := [(''a'', 3), (''b'', 9), (''c'', 1), (''d'', - 2)])\<rparr>) = (jobs, r')" and
    s: "set jobs = {m. \<exists>s. (m, s) \<in> set (zsets ((empty_redis :: string Redis)\<lparr>
        lists := (\<lambda>k. [])(''jet:q:waiting'' := [''w'']),
        zsets := (\<lambda>k. [])(''jet:q:delayed'' := [(''a'', 3), (''b'', 9), (''c'', 1), (''d'', - 2)])\<rparr>) ''jet:q:delayed'') \<and> 0 \<le> s \<and> s \<le> of_int 5}" and
    z: "zsets r' ''jet:q:delayed'' = filter (\<lambda>p. \<not> (0 \<le> snd p \<and> snd p \<le> of_int 5)) (zsets ((empty_redis :: string Redis)\<lparr>
        lists := (\<lambda>k. [])(''jet:q:waiting'' := [''w'']),
        zsets := (\<lambda>k. [])(''jet:q:delayed'' := [(''a'', 3), (''b'', 9), (''c'', 1), (''d'', - 2)])\<rparr>) ''jet:q:delayed'')" and
    l: "lists r' ''jet:q:waiting'' = rev jobs @ lists ((empty_redis :: string Redis)\<lparr>
        lists := (\<lambda>k. [])(''jet:q:waiting'' := [''w'']),
        zsets := (\<lambda>k. [])(''jet:q:delayed'' := [(''a'', 3), (''b'', 9), (''c'', 1), (''d'', - 2)])\<rparr>) ''jet:q:waiting''"
    by (elim exE conjE)
  have s': "set jobs = {''a'', ''c''}"
    unfolding s by auto
  have z': "zsets r' ''jet:q:delayed'' = [(''b'', 9), (''d'', - 2)]"
    unfolding z by simp
  have l': "lists r' ''jet:q:waiting'' = rev jobs @ [''w'']"
    unfolding l by simp
  show ?thesis
    unfolding p fst_conv snd_conv using s' z' l' by simp
qed

text \<open>
  C5: when the waiting list is non-empty, \<open>moveToActive\<close> removes its tail element,
  pushes that id onto the head of active, sets the field \<open>startedAt = nowMs\<close> on the hash
  \<open>jobsKey:id\<close> (leaving the field \<open>data\<close> and every other hash as they were) and
  returns the id; when the waiting list is empty it returns nil and changes nothing. The
  lists are given first as the two updates in sequence, then for distinct keys.
\<close>

theorem moveToActive_spec:
  "(lists r waitingKey = [] \<longrightarrow>
      moveToActive waitingKey activeKey jobsKey nowMs r = (None, r)) \<and>
   (lists r waitingKey \<noteq> [] \<longrightarrow>
      (\<exists>r'. moveToActive waitingKey activeKey jobsKey nowMs r
               = (Some (last (lists r waitingKey)), r') \<and>
            lists r' = ((lists r)(waitingKey := butlast (lists r waitingKey)))
                         (activeKey := last (lists r waitingKey) #
                            ((lists r)(waitingKey := butlast (lists r waitingKey))) activeKey) \<and>
            (waitingKey \<noteq> activeKey \<longrightarrow>
               lists r' waitingKey = butlast (lists r waitingKey) \<and>
               lists r' activeKey = last (lists r waitingKey) # lists r activeKey) \<and>
            (\<exists>h. hashes r' (jobsKey @ '':'' @ last (lists r waitingKey)) = Some h \<and>
                 h_startedAt h = Some nowMs) \<and>
            hget_data (jobsKey @ '':'' @ last (lists r waitingKey)) r'
              = hget_data (jobsKey @ '':'' @ last (lists r waitingKey)) r \<and>
            (\<forall>k. k \<noteq> jobsKey @ '':'' @ last (lists r waitingKey) \<longrightarrow> hashes r' k = hashes r k) \<and>
            zsets r' = zsets r \<and> strings r' = strings r))"
proof (cases "lists r waitingKey")
  case Nil
  then show ?thesis by (simp add: moveToActive_def rpop_def)
next
  case (Cons x xs)
  let ?i = "last (lists r waitingKey)"
  let ?r1 = "r\<lparr>lists := (lists r)(waitingKey := butlast (lists r waitingKey))\<rparr>"
  let ?r' = "hset_startedAt (jobsKey @ '':'' @ ?i) nowMs (lpush activeKey ?i ?r1)"
  have eq: "moveToActive waitingKey activeKey jobsKey nowMs r = (Some ?i, ?r')"
    using Cons by (simp add: moveToActive_def rpop_def)
  have l: "lists ?r' = ((lists r)(waitingKey := butlast (lists r waitingKey)))
                         (activeKey := ?i # ((lists r)(waitingKey := butlast (lists r waitingKey))) activeKey)"
    by simp
  have l2: "waitingKey \<noteq> activeKey \<longrightarrow>
               lists ?r' waitingKey = butlast (lists r waitingKey) \<and>
               lists ?r' activeKey = ?i # lists r activeKey"
    by simp
  have h1: "\<exists>h. hashes ?r' (jobsKey @ '':'' @ ?i) = Some h \<and> h_startedAt h = Some nowMs"
    by (rule startedAt_hset_startedAt)
  have h2: "hget_data (jobsKey @ '':'' @ ?i) ?r' = hget_data (jobsKey @ '':'' @ ?i) r"
    by simp
  have h3: "\<forall>k. k \<noteq> jobsKey @ '':'' @ ?i \<longrightarrow> hashes ?r' k = hashes r k"
    by (simp add: hashes_hset_startedAt_other)
  have zs: "zsets ?r' = zsets r \<and> strings ?r' = strings r"
    by simp
  have "\<exists>r'. moveToActive waitingKey activeKey jobsKey nowMs r = (Some ?i, r') \<and>
            lists r' = ((lists r)(waitingKey := butlast (lists r waitingKey)))
                         (activeKey := ?i # ((lists r)(waitingKey := butlast (lists r waitingKey))) activeKey) \<and>
            (waitingKey \<noteq> activeKey \<longrightarrow>
               lists r' waitingKey = butlast (lists r waitingKey) \<and>
               lists r' activeKey = ?i # lists r activeKey) \<and>
            (\<exists>h. hashes r' (jobsKey @ '':'' @ ?i) = Some h \<and> h_startedAt h = Some nowMs) \<and>
            hget_data (jobsKey @ '':'' @ ?i) r' = hget_data (jobsKey @ '':'' @ ?i) r \<and>
            (\<forall>k. k \<noteq> jobsKey @ '':'' @ ?i \<longrightarrow> hashes r' k = hashes r k) \<and>
            zsets r' = zsets r \<and> strings r' = strings r"
    using eq l l2 h1 h2 h3 zs by (intro exI[of _ ?r'] conjI) (rule eq l l2 h1 h2 h3 conjunct1[OF zs] conjunct2[OF zs])+
  then show ?thesis using Cons by simp
qed


theorem moveToActive_spec_witness:
  "lists (empty_redis :: string Redis) ''jet:test-queue:waiting'' = [] \<and>
   fst (moveToActive ''jet:test-queue:waiting'' ''jet:test-queue:active''
          ''jet:test-queue:job'' 42 (empty_redis :: string Redis)) = None \<and>
   lists one_job_redis ''jet:test-queue:waiting'' \<noteq> [] \<and>
   ''jet:test-queue:waiting'' \<noteq> ''jet:test-queue:active'' \<and>
   fst (moveToActive ''jet:test-queue:waiting'' ''jet:test-queue:active''
          ''jet:test-queue:job'' 42 one_job_redis) = Some ''a'' \<and>
   lists (snd (moveToActive ''jet:test-queue:waiting'' ''jet:test-queue:active''
          ''jet:test-queue:job'' 42 one_job_redis)) ''jet:test-queue:waiting'' = [] \<and>
   lists (snd (moveToActive ''jet:test-queue:waiting'' ''jet:test-queue:active''
          ''jet:test-queue:job'' 42 one_job_redis)) ''jet:test-queue:active'' = [''a'']"
proof -
  have e: "lists (empty_redis :: string Redis) ''jet:test-queue:waiting'' = []"
    by (simp add: empty_redis_def)
  have w: "lists one_job_redis ''jet:test-queue:waiting'' = [''a'']"
    by (simp add: test_defs)
  have a: "lists one_job_redis ''jet:test-queue:active'' = []"
    by (simp add: test_defs)
  have d: "''jet:test-queue:waiting'' \<noteq> ''jet:test-queue:active''"
    by simp
  note t1 = moveToActive_spec [of "empty_redis :: string Redis" "''jet:test-queue:waiting''"
      "''jet:test-queue:active''" "''jet:test-queue:job''" 42]
  note t2 = moveToActive_spec [of one_job_redis "''jet:test-queue:waiting''"
      "''jet:test-queue:active''" "''jet:test-queue:job''" 42]
  have r1: "moveToActive ''jet:test-queue:waiting'' ''jet:test-queue:active''
          ''jet:test-queue:job'' 42 (empty_redis :: string Redis) = (None, empty_redis)"
    using t1 e by simp
  have "\<exists>r'. moveToActive ''jet:test-queue:waiting'' ''jet:test-queue:active''
          ''jet:test-queue:job'' 42 one_job_redis = (Some ''a'', r') \<and>
          lists r' ''jet:test-queue:waiting'' = [] \<and>
          lists r' ''jet:test-queue:active'' = [''a'']"
    using t2 unfolding w a
    apply (simp del: fun_upd_apply)
    apply (elim exE conjE)
    apply (intro exI conjI)
      apply assumption+
    done
  then obtain r' where
    r2: "moveToActive ''jet:test-queue:waiting'' ''jet:test-queue:active''
          ''jet:test-queue:job'' 42 one_job_redis = (Some ''a'', r')" and
    l1: "lists r' ''jet:test-queue:waiting'' = []" and
    l2: "lists r' ''jet:test-queue:active'' = [''a'']"
    by (elim exE conjE)
  show ?thesis
    unfolding r1 r2 fst_conv snd_conv using e w d l1 l2 by simp
qed


section \<open>Backoff\<close>

text \<open>
  C6, as the specification states it, gives \<open>backoff.delay\<close> for type \<open>fixed\<close> also when
  \<open>backoff.delay = 0\<close>. The code replaces a zero delay by 1000 (\<open>backoff.delay || 1000\<close>):
  a fixed backoff with delay 0 waits 1000 ms, not 0.
\<close>

theorem calculateBackoff_zero_delay_counterexample:
  "calculateBackoff 1 (no_options\<lparr>backoff := Value \<lparr>btype = ''fixed'', bdelay = 0\<rparr>\<rparr>)
     \<noteq> bdelay \<lparr>btype = ''fixed'', bdelay = 0\<rparr>"
  by (simp add: calculateBackoff_def no_options_def num_or_def get_prop_def)

text \<open>
  C6 (amended): for every \<open>attempts \<ge> 1\<close>, \<open>calculateBackoff attempts opts\<close> is 0 if
  \<open>opts.backoff\<close> is absent (or \<open>undefined\<close>); otherwise, with \<open>d = backoff.delay\<close> if that is non-zero and
  \<open>d = 1000\<close> if it is zero, it is \<open>d\<close> for type \<open>fixed\<close>, \<open>d * 2^(attempts - 1)\<close> for
  type \<open>exponential\<close>, and 0 for any other type.
\<close>

theorem calculateBackoff_cases:
  "1 \<le> n \<Longrightarrow>
   calculateBackoff n opts =
     (case get_prop (backoff opts) of
        None \<Rightarrow> 0
      | Some b \<Rightarrow>
          if btype b = ''fixed'' then (if bdelay b = 0 then 1000 else bdelay b)
          else if btype b = ''exponential''
            then (if bdelay b = 0 then 1000 else bdelay b) * 2 ^ nat (n - 1)
          else 0)"
  by (simp add: calculateBackoff_def num_or_def power_int_def split: option.splits)

theorem calculateBackoff_cases_witness:
  "(1::int) \<le> 3 \<and>
   calculateBackoff 3 (no_options\<lparr>backoff := Value \<lparr>btype = ''exponential'', bdelay = 10\<rparr>\<rparr>) = 40"
  using calculateBackoff_cases
    [of 3 "no_options\<lparr>backoff := Value \<lparr>btype = ''exponential'', bdelay = 10\<rparr>\<rparr>"]
  by (simp add: no_options_def get_prop_def)

section \<open>Producer\<close>

text \<open>
  C1: \<open>removeJob\<close> is idempotent: called twice in succession it succeeds both times and
  leaves the same key space, the id absent from waiting, active and delayed and the hash
  deleted. On the code the second call throws. \<open>removeJob\<close> begins with \<open>getJob\<close>, which
  throws a \<open>JobError\<close> for the record that the first call deleted, so the guard
  \<open>if (!exists) return\<close> that follows it is never reached. The run is that of the unit
  tests: one \<open>add\<close>, then \<open>removeJob\<close> twice.
\<close>

theorem removeJob_twice_throws:
  "fst (removeJob test_queue one_job_redis ''a'') = Inr () \<and>
   fst (removeJob test_queue (fst (snd (removeJob test_queue one_job_redis ''a''))) ''a'')
     = Inl (JobError ''Job with id a not found'')"
  by (simp add: getJob_def removeJob_def test_defs redis_defs)

text \<open>
  The same holds on every queue, server and id: \<open>getJob\<close> never returns \<open>null\<close>, and the
  second of two calls of \<open>removeJob\<close> in succession always throws (after a first call
  that removed the record, and after a first call that threw).
\<close>

lemma getJob_never_null: "getJob q r jobId \<noteq> Inr None"
  by (simp add: getJob_def split: option.splits)

lemma removeJob_second_call_throws:
  "fst (removeJob q (fst (snd (removeJob q r jobId))) jobId)
     = Inl (JobError (''Job with id '' @ jobId @ '' not found''))"
proof (cases "hget_data (queue_key q (''job:'' @ jobId)) r")
  case None
  then show ?thesis by (simp add: removeJob_def getJob_def)
next
  case (Some job)
  then show ?thesis by (simp add: removeJob_def getJob_def Let_def)
qed




text \<open>
  C2 says that \<open>getJob\<close> returns \<open>null\<close> for an id whose hash record is absent. The
  repository's own test "should remove a job" expects that too: it adds a job, removes it
  and expects \<open>getJob\<close> to give \<open>null\<close>. Run on the code, the last call of that test
  throws a \<open>JobError\<close> instead.
\<close>

theorem getJob_after_remove_throws:
  "getJob test_queue
     (fst (snd (removeJob test_queue
        (fst (snd (add test_queue empty_redis ''test-job'' ''bar'' no_options ''a'' 1 1)))
        ''a'')))
     ''a''
   = Inl (JobError ''Job with id a not found'')"
  by (simp add: getJob_def removeJob_def test_defs redis_defs)

text \<open>
  C10: \<open>Queue.close\<close> always leaves the queue not ready; it emits \<open>closed\<close> exactly when
  the queue was ready; and every call that follows, after any number \<open>n\<close> of further
  calls, changes nothing and emits nothing.
\<close>

theorem close_idempotent:
  "fst (close q :: Queue \<times> 't event list) = q\<lparr>isReady := False\<rparr> \<and>
   snd (close q :: Queue \<times> 't event list) = (if isReady q then [E_closed] else []) \<and>
   (close (((\<lambda>x. fst (close x :: Queue \<times> 't event list)) ^^ n)
             (fst (close q :: Queue \<times> 't event list))) :: Queue \<times> 't event list)
     = (fst (close q :: Queue \<times> 't event list), [])"
proof -
  have 1: "fst (close q :: Queue \<times> 't event list) = q\<lparr>isReady := False\<rparr>"
    by (simp add: close_def)
  have 2: "snd (close q :: Queue \<times> 't event list) = (if isReady q then [E_closed] else [])"
    by (simp add: close_def)
  have 3: "(close (q\<lparr>isReady := False\<rparr>) :: Queue \<times> 't event list) = (q\<lparr>isReady := False\<rparr>, [])"
    by (simp add: close_def)
  show ?thesis
    unfolding 1 close_again using 2 3 by simp
qed


section \<open>Worker\<close>

text \<open>
  C7 ends with: so \<open>attemptsMade \<le> options.attempts\<close> holds upon reaching status
  \<open>failed\<close>. The code retries while \<open>attemptsMade < (job.options.attempts || 1)\<close>. A
  job added with \<open>attempts: 0\<close> fails for good on its first failure, with
  \<open>attemptsMade = 1\<close>; so does a job added with \<open>attempts: -1\<close>; and a job added with
  \<open>attempts: 1.5\<close> is retried once and fails for good on its second failure, with
  \<open>attemptsMade = 2\<close>.
\<close>

theorem failJob_attempts_counterexample:
  "map_option status (hget_data ''jet:test-queue:job:a''
      (failed_once (no_options\<lparr>attempts := Value 0\<rparr>))) = Some Failed \<and>
   map_option attemptsMade (hget_data ''jet:test-queue:job:a''
      (failed_once (no_options\<lparr>attempts := Value 0\<rparr>))) = Some 1 \<and>
   map_option (attempts \<circ> options) (hget_data ''jet:test-queue:job:a''
      (failed_once (no_options\<lparr>attempts := Value 0\<rparr>))) = Some (Value 0) \<and>
   \<not> (of_int 1 \<le> (0 :: rat)) \<and>
   map_option status (hget_data ''jet:test-queue:job:a''
      (failed_once (no_options\<lparr>attempts := Value (- 1)\<rparr>))) = Some Failed \<and>
   map_option attemptsMade (hget_data ''jet:test-queue:job:a''
      (failed_once (no_options\<lparr>attempts := Value (- 1)\<rparr>))) = Some 1 \<and>
   map_option (attempts \<circ> options) (hget_data ''jet:test-queue:job:a''
      (failed_once (no_options\<lparr>attempts := Value (- 1)\<rparr>))) = Some (Value (- 1)) \<and>
   \<not> (of_int 1 \<le> (- 1 :: rat)) \<and>
   map_option status (hget_data ''jet:test-queue:job:a''
      (failed_once (no_options\<lparr>attempts := Value (3 / 2)\<rparr>))) = Some Delayed \<and>
   map_option status (hget_data ''jet:test-queue:job:a''
      (failed_twice (no_options\<lparr>attempts := Value (3 / 2)\<rparr>))) = Some Failed \<and>
   map_option attemptsMade (hget_data ''jet:test-queue:job:a''
      (failed_twice (no_options\<lparr>attempts := Value (3 / 2)\<rparr>))) = Some 2 \<and>
   map_option (attempts \<circ> options) (hget_data ''jet:test-queue:job:a''
      (failed_twice (no_options\<lparr>attempts := Value (3 / 2)\<rparr>))) = Some (Value (3 / 2)) \<and>
   \<not> (of_int 2 \<le> (3 / 2 :: rat))"
proof -
  have o: "failed_once opts
      = fst (failJob test_worker (dispatched_redis opts) ''a'' boom 100)" for opts
    by (simp add: failed_once_def)
  have a0: "hget_data ''jet:test-queue:job:a'' (failed_once (no_options\<lparr>attempts := Value 0\<rparr>))
      = Some \<lparr>job_id = ''a'', name = ''test-job'', data = ''bar'',
          options = no_options\<lparr>attempts := Value 0\<rparr>, createdAt = 1, status = Failed,
          attemptsMade = 1, returnValue = None, failedReason = Some ''boom'',
          stackTrace = Some [''boom'']\<rparr>"
    by (simp add: o failJob_def test_worker_key dispatched_job Let_def boom_def)
       (simp add: test_defs truthy_flag_def)
  have a1: "hget_data ''jet:test-queue:job:a'' (failed_once (no_options\<lparr>attempts := Value (- 1)\<rparr>))
      = Some \<lparr>job_id = ''a'', name = ''test-job'', data = ''bar'',
          options = no_options\<lparr>attempts := Value (- 1)\<rparr>, createdAt = 1, status = Failed,
          attemptsMade = 1, returnValue = None, failedReason = Some ''boom'',
          stackTrace = Some [''boom'']\<rparr>"
    by (simp add: o failJob_def test_worker_key dispatched_job Let_def boom_def)
       (simp add: test_defs truthy_flag_def)
  have a2: "hget_data ''jet:test-queue:job:a'' (failed_once (no_options\<lparr>attempts := Value (3 / 2)\<rparr>))
      = Some \<lparr>job_id = ''a'', name = ''test-job'', data = ''bar'',
          options = no_options\<lparr>attempts := Value (3 / 2)\<rparr>, createdAt = 1, status = Delayed,
          attemptsMade = 1, returnValue = None, failedReason = Some ''boom'',
          stackTrace = Some [''boom'']\<rparr>"
    by (simp add: o failJob_def test_worker_key dispatched_job Let_def boom_def)
       (simp add: test_defs truthy_flag_def)
  have a3: "hget_data ''jet:test-queue:job:a'' (failed_twice (no_options\<lparr>attempts := Value (3 / 2)\<rparr>))
      = Some \<lparr>job_id = ''a'', name = ''test-job'', data = ''bar'',
          options = no_options\<lparr>attempts := Value (3 / 2)\<rparr>, createdAt = 1, status = Failed,
          attemptsMade = 2, returnValue = None, failedReason = Some ''boom'',
          stackTrace = Some [''boom'', ''boom'']\<rparr>"
    by (simp add: failed_twice_def failJob_def test_worker_key a2 Let_def boom_def)
       (simp add: test_defs truthy_flag_def)
  show ?thesis
    unfolding a0 a1 a2 a3 by (simp add: no_options_def)
qed

text \<open>
  C7 (amended): for every failed execution whose job record still exists, \<open>failJob\<close>
  increments \<open>attemptsMade\<close> by exactly 1, records \<open>failedReason\<close> and appends one entry
  to \<open>stackTrace\<close>. With the bound \<open>options.attempts || 1\<close> (absent, \<open>undefined\<close> or 0
  counts as 1): if the incremented \<open>attemptsMade\<close> is below the bound, it writes the job
  back with status \<open>delayed\<close>, ZADDs the id into delayed with score \<open>now + backoff\<close> and
  LREMs it from active, in one transaction, and emits \<open>failed\<close> then \<open>retrying\<close>;
  otherwise it sets status \<open>failed\<close>, LREMs from active, deletes the hash iff
  \<open>removeOnFail\<close> is truthy and else writes it back, and emits \<open>failed\<close>. So upon
  reaching status \<open>failed\<close>, \<open>attemptsMade\<close> is at least the bound; and
  \<open>attemptsMade \<le> bound\<close> holds (with equality) when the bound is an integer and
  \<open>attemptsMade\<close> was below it before this failure.
\<close>

theorem failJob_spec:
  assumes "hget_data (worker_key w (''job:'' @ jobId)) r = Some job0"
  shows "\<exists>job r' fx.
     failJob w r jobId err now = (r', fx) \<and>
     job = job0\<lparr> attemptsMade := attemptsMade job0 + 1,
                 failedReason := Some (message err),
                 stackTrace := Some ((case stackTrace job0 of None \<Rightarrow> [] | Some t \<Rightarrow> t)
                                      @ [str_or (stack err) (message err)]),
                 status := (if of_int (attemptsMade job0 + 1)
                                 < num_or (get_prop (attempts (options job0))) 1
                            then Delayed else Failed) \<rparr> \<and>
     (of_int (attemptsMade job) < num_or (get_prop (attempts (options job))) 1 \<longrightarrow>
        status job = Delayed \<and>
        r' = exec [ZADD (worker_key w ''delayed'')
                     (of_int now + calculateBackoff (attemptsMade job) (options job)) (job_id job),
                   HSET (worker_key w (''job:'' @ jobId)) (stored job),
                   LREM (worker_key w ''active'') (job_id job)] r \<and>
        fx = [Emit (E_failed job err), Emit (E_retrying job)] \<and>
        hget_data (worker_key w (''job:'' @ jobId)) r' = Some (stored job) \<and>
        (job_id job, of_int now + calculateBackoff (attemptsMade job) (options job))
           \<in> set (zsets r' (worker_key w ''delayed'')) \<and>
        job_id job \<notin> set (lists r' (worker_key w ''active''))) \<and>
     (\<not> of_int (attemptsMade job) < num_or (get_prop (attempts (options job))) 1 \<longrightarrow>
        status job = Failed \<and>
        r' = exec (LREM (worker_key w ''active'') (job_id job) #
                   (if truthy_flag (get_prop (removeOnFail (options job)))
                    then [DEL (worker_key w (''job:'' @ jobId))]
                    else [HSET (worker_key w (''job:'' @ jobId)) (stored job)])) r \<and>
        fx = [Emit (E_failed job err)] \<and>
        job_id job \<notin> set (lists r' (worker_key w ''active'')) \<and>
        (truthy_flag (get_prop (removeOnFail (options job))) \<longrightarrow>
           hashes r' (worker_key w (''job:'' @ jobId)) = None) \<and>
        (\<not> truthy_flag (get_prop (removeOnFail (options job))) \<longrightarrow>
           hget_data (worker_key w (''job:'' @ jobId)) r' = Some (stored job)) \<and>
        num_or (get_prop (attempts (options job))) 1 \<le> of_int (attemptsMade job) \<and>
        (num_or (get_prop (attempts (options job))) 1 \<in> \<int> \<and>
         of_int (attemptsMade job0) < num_or (get_prop (attempts (options job))) 1 \<longrightarrow>
           of_int (attemptsMade job) = num_or (get_prop (attempts (options job))) 1))"
proof (cases "of_int (attemptsMade job0 + 1) < num_or (get_prop (attempts (options job0))) 1")
  case True
  then show ?thesis
    using assms by (simp add: failJob_def Let_def)
next
  case False
  have i: "of_int (attemptsMade job0 + 1) = num_or (get_prop (attempts (options job0))) 1"
    if "num_or (get_prop (attempts (options job0))) 1 \<in> \<int>"
      and "of_int (attemptsMade job0) < num_or (get_prop (attempts (options job0))) 1"
  proof -
    from that(1) obtain k :: int where k: "num_or (get_prop (attempts (options job0))) 1 = of_int k"
      by (rule Ints_cases)
    from that(2) have "attemptsMade job0 < k" unfolding k by simp
    moreover from False have "k \<le> attemptsMade job0 + 1" unfolding k by simp
    ultimately have "attemptsMade job0 + 1 = k" by simp
    then show ?thesis unfolding k by simp
  qed
  from False i show ?thesis
    using assms by (simp add: failJob_def Let_def)
qed

theorem failJob_spec_witness:
  "hget_data (worker_key test_worker (''job:'' @ ''a'')) (dispatched_redis no_options) \<noteq> None \<and>
   map_option status (hget_data ''jet:test-queue:job:a''
      (fst (failJob test_worker (dispatched_redis no_options) ''a'' boom 100))) = Some Failed \<and>
   map_option attemptsMade (hget_data ''jet:test-queue:job:a''
      (fst (failJob test_worker (dispatched_redis no_options) ''a'' boom 100))) = Some 1 \<and>
   map_option status (hget_data ''jet:test-queue:job:a''
      (fst (failJob test_worker
              (dispatched_redis (no_options\<lparr>attempts := Value 3,
                 backoff := Value \<lparr>btype = ''fixed'', bdelay = 50\<rparr>\<rparr>)) ''a'' boom 100)))
     = Some Delayed \<and>
   (''a'', 150) \<in> set (zsets
      (fst (failJob test_worker
              (dispatched_redis (no_options\<lparr>attempts := Value 3,
                 backoff := Value \<lparr>btype = ''fixed'', bdelay = 50\<rparr>\<rparr>)) ''a'' boom 100))
      ''jet:test-queue:delayed'')"
proof -
  let ?o = "no_options\<lparr>attempts := Value 3, backoff := Value \<lparr>btype = ''fixed'', bdelay = 50\<rparr>\<rparr>"
  have h1: "hget_data (worker_key test_worker (''job:'' @ ''a'')) (dispatched_redis no_options)
     = Some \<lparr>job_id = ''a'', name = ''test-job'', data = ''bar'',
        options = no_options, createdAt = 1, status = Waiting, attemptsMade = 0,
        returnValue = None, failedReason = None, stackTrace = None\<rparr>"
    by (simp add: test_worker_key dispatched_job) (simp add: test_defs)
  have h2: "hget_data (worker_key test_worker (''job:'' @ ''a'')) (dispatched_redis ?o)
     = Some \<lparr>job_id = ''a'', name = ''test-job'', data = ''bar'',
        options = ?o, createdAt = 1, status = Waiting, attemptsMade = 0,
        returnValue = None, failedReason = None, stackTrace = None\<rparr>"
    by (simp add: test_worker_key dispatched_job) (simp add: test_defs)
  have f1: "map_option status (hget_data ''jet:test-queue:job:a''
      (fst (failJob test_worker (dispatched_redis no_options) ''a'' boom 100))) = Some Failed \<and>
     map_option attemptsMade (hget_data ''jet:test-queue:job:a''
      (fst (failJob test_worker (dispatched_redis no_options) ''a'' boom 100))) = Some 1"
    using failJob_spec [OF h1, of boom 100]
    by (auto simp add: test_worker_key test_defs truthy_flag_def)
  have f2: "map_option status (hget_data ''jet:test-queue:job:a''
      (fst (failJob test_worker (dispatched_redis ?o) ''a'' boom 100))) = Some Delayed \<and>
      (''a'', 150) \<in> set (zsets (fst (failJob test_worker (dispatched_redis ?o) ''a'' boom 100))
         ''jet:test-queue:delayed'')"
    using failJob_spec [OF h2, of boom 100]
    by (auto simp add: test_worker_key test_defs calculateBackoff_def)
  show ?thesis
    using h1 f1 f2 by simp
qed

text \<open>
  C8 says that a pass of the dispatcher taken while the queue's pause flag is set sleeps
  100 ms and does not invoke \<open>moveToActive\<close>. The worker never reads the key
  \<open>paused\<close>: on a paused queue with one waiting job, the pass invokes \<open>moveToActive\<close>
  and spawns the job's task.
\<close>

theorem paused_queue_dispatched_counterexample:
  "isPaused test_queue (fst (pause test_queue one_job_redis)) \<and>
   snd (snd (processJobs_pass test_worker (fst (pause test_queue one_job_redis)) 2 None
               \<lparr>activeJobs_size = 0, processedJobsCount = 0\<rparr>))
     = [Invoke_moveToActive, Spawn_processJob ''a'']"
  by (simp add: isPaused_def pause_def set_string_def get_string_def test_queue_key
      processJobs_pass_def getNextJob_def below_cap_def test_worker_key moveToActive_def rpop_def
      one_job_redis_def add_def test_queue_fields Let_def empty_redis_def truthy_num_def
      no_options_def get_prop_def)
    (simp add: test_worker_def new_Worker_def num_or_def truthy_num_def)

text \<open>
  C8 (amended): a pass of the dispatcher does not consult the queue's pause flag: what it
  does to its counters and to the server and the effects it has are the same whatever the
  string keys of the server hold (the pause flag is one of them). A pass of a running
  worker with a handler, below its job cap and below its concurrency limit, invokes
  \<open>moveToActive\<close> also when the flag is set, and it sleeps the 100 ms idle interval and
  continues exactly when that yields no id (the call fails, the waiting list is empty,
  or the id popped is the empty string).
\<close>

theorem dispatcher_ignores_pause_flag:
  "processJobs_pass w (r\<lparr>strings := ss\<rparr>) now failure st
     = (case processJobs_pass w r now failure st of
          (st', r', fx) \<Rightarrow> (st', r'\<lparr>strings := ss\<rparr>, fx)) \<and>
   (isRunning w \<and> below_cap (processedJobsCount st) (maxJobsPerWorker w) \<and>
    of_nat (activeJobs_size st) < concurrency w \<and> processFn w \<noteq> None \<longrightarrow>
      (case processJobs_pass w r now failure st of
         (st', r', fx) \<Rightarrow>
           Invoke_moveToActive \<in> set fx \<and>
           (Sleep 100 \<in> set fx \<longleftrightarrow>
              failure \<noteq> None \<or>
              lists r (worker_key w ''waiting'') = [] \<or>
              last (lists r (worker_key w ''waiting'')) = [])))"
proof (intro conjI impI)
  show "processJobs_pass w (r\<lparr>strings := ss\<rparr>) now failure st
     = (case processJobs_pass w r now failure st of
          (st', r', fx) \<Rightarrow> (st', r'\<lparr>strings := ss\<rparr>, fx))"
    by (simp add: processJobs_pass_def getNextJob_strings
        split: prod.splits option.splits sum.splits)
next
  assume a: "isRunning w \<and> below_cap (processedJobsCount st) (maxJobsPerWorker w) \<and>
    of_nat (activeJobs_size st) < concurrency w \<and> processFn w \<noteq> None"
  obtain i r1 where m: "moveToActive (worker_key w ''waiting'') (worker_key w ''active'')
                (worker_key w ''job'') now r = (i, r1)"
    by (cases "moveToActive (worker_key w ''waiting'') (worker_key w ''active'')
                (worker_key w ''job'') now r")
  have i: "i = (if lists r (worker_key w ''waiting'') = [] then None
                else Some (last (lists r (worker_key w ''waiting''))))"
    using fst_moveToActive [of "worker_key w ''waiting''" "worker_key w ''active''"
        "worker_key w ''job''" now r] m by simp
  show "case processJobs_pass w r now failure st of
         (st', r', fx) \<Rightarrow>
           Invoke_moveToActive \<in> set fx \<and>
           (Sleep 100 \<in> set fx \<longleftrightarrow>
              failure \<noteq> None \<or>
              lists r (worker_key w ''waiting'') = [] \<or>
              last (lists r (worker_key w ''waiting'')) = [])"
  proof (cases failure)
    case None
    then show ?thesis
      using a by (simp add: processJobs_pass_def getNextJob_def m i)
  next
    case (Some e)
    then show ?thesis
      using a by (simp add: processJobs_pass_def getNextJob_def)
  qed
qed

theorem dispatcher_ignores_pause_flag_witness:
  "isRunning test_worker \<and>
   below_cap (processedJobsCount \<lparr>activeJobs_size = 0, processedJobsCount = 0\<rparr>)
     (maxJobsPerWorker test_worker) \<and>
   of_nat (activeJobs_size \<lparr>activeJobs_size = 0, processedJobsCount = 0\<rparr>)
     < concurrency test_worker \<and>
   processFn test_worker \<noteq> None \<and>
   Invoke_moveToActive \<in> set (snd (snd (processJobs_pass test_worker one_job_redis 2 None
       \<lparr>activeJobs_size = 0, processedJobsCount = 0\<rparr>))) \<and>
   Sleep 100 \<notin> set (snd (snd (processJobs_pass test_worker one_job_redis 2 None
       \<lparr>activeJobs_size = 0, processedJobsCount = 0\<rparr>))) \<and>
   Sleep 100 \<in> set (snd (snd (processJobs_pass test_worker one_job_redis 2 (Some boom)
       \<lparr>activeJobs_size = 0, processedJobsCount = 0\<rparr>))) \<and>
   snd (snd (processJobs_pass test_worker
       (one_job_redis\<lparr>strings := (\<lambda>k. None)(''jet:test-queue:paused'' \<mapsto> ''1'')\<rparr>) 2 None
       \<lparr>activeJobs_size = 0, processedJobsCount = 0\<rparr>))
     = snd (snd (processJobs_pass test_worker one_job_redis 2 None
       \<lparr>activeJobs_size = 0, processedJobsCount = 0\<rparr>))"
proof -
  let ?st = "\<lparr>activeJobs_size = 0, processedJobsCount = 0\<rparr>"
  have a: "isRunning test_worker \<and>
      below_cap (processedJobsCount ?st) (maxJobsPerWorker test_worker) \<and>
      of_nat (activeJobs_size ?st) < concurrency test_worker \<and> processFn test_worker \<noteq> None"
    by (simp add: test_worker_def new_Worker_def below_cap_def num_or_def truthy_num_def)
  have w: "lists one_job_redis (worker_key test_worker ''waiting'') = [''a'']"
    by (simp add: test_worker_key one_job_redis_def add_def test_queue_key test_queue_fields
        Let_def empty_redis_def no_options_def truthy_num_def get_prop_def)
  note t = dispatcher_ignores_pause_flag
    [where w = test_worker and r = one_job_redis and now = 2 and st = ?st
       and failure = None
       and ss = "(\<lambda>k. None)(''jet:test-queue:paused'' \<mapsto> ''1'')"]
  note t2 = dispatcher_ignores_pause_flag
    [where w = test_worker and r = one_job_redis and now = 2 and st = ?st
       and failure = "Some boom"
       and ss = "(\<lambda>k. None)(''jet:test-queue:paused'' \<mapsto> ''1'')"]
  from t t2 a w show ?thesis
    by (simp add: case_prod_beta del: fun_upd_apply)
qed

text \<open>
  C9: on a worker without a handler, \<open>process\<close> installs the handler, sets the worker
  running and starts the dispatcher and promoter loops, and every further call of
  \<open>process\<close> on the resulting worker throws a \<open>WorkerError\<close>; on any worker that has a
  handler, \<open>process\<close> throws a \<open>WorkerError\<close>, whatever the second handler is, and leaves
  the worker as it was.
\<close>

theorem process_single_handler:
  "(processFn w = None \<longrightarrow>
     (\<exists>w1. (process w h :: (error + unit) \<times> 'h Worker \<times> 't effect list)
              = (Inr (), w1, [Start_processJobs, Start_processDelayedJobs])
        \<and> processFn w1 = Some h \<and> isRunning w1
        \<and> (process w1 h' :: (error + unit) \<times> 'h Worker \<times> 't effect list)
              = (Inl (WorkerError ''Cannot set multiple process functions''), w1, [])))
   \<and> (processFn w \<noteq> None \<longrightarrow>
        (process w h' :: (error + unit) \<times> 'h Worker \<times> 't effect list)
          = (Inl (WorkerError ''Cannot set multiple process functions''), w, []))"
  by (simp add: process_def)

theorem process_single_handler_witness:
  "processFn (new_Worker ''q'' None None None :: nat Worker) = None \<and>
   processFn ((new_Worker ''q'' None None None :: nat Worker)\<lparr>processFn := Some 1\<rparr>) \<noteq> None \<and>
   fst (process (new_Worker ''q'' None None None) (1::nat)
          :: (error + unit) \<times> nat Worker \<times> unit effect list) = Inr () \<and>
   fst (process ((new_Worker ''q'' None None None)\<lparr>processFn := Some 1\<rparr>) (2::nat)
          :: (error + unit) \<times> nat Worker \<times> unit effect list)
     = Inl (WorkerError ''Cannot set multiple process functions'')"
  using process_single_handler
      [of "new_Worker ''q'' None None None :: nat Worker" 1 2, where ?'t = unit]
    process_single_handler
      [of "(new_Worker ''q'' None None None :: nat Worker)\<lparr>processFn := Some 1\<rparr>" 1 2,
       where ?'t = unit]
  by (auto simp add: new_Worker_def)

end
